theory Spec2Isabelle
  imports Main "HOL-Library.Word"
begin

section \<open>The order service: durable store, cache and read handlers\<close>

text \<open>
  The service keeps every order twice: as a row of the table \<open>orders\<close> of a relational
  database, and as an entry of an in-memory map from the order identifier to the raw
  payload. The model is sequential: the read/write lock \<open>mu\<close> of the source makes each
  access to the map atomic, so one call is one step on the state.
\<close>

subsection \<open>Errors\<close>

text \<open>
  Go's \<open>error\<close> values as a datatype, one constructor for each place an error is
  made: the three \<open>errors.New\<close> of \<open>minimalValidateOrder\<close>, the type error that
  \<open>json.Unmarshal\<close> reports (the kind of JSON value met and the field it was meant
  for, the empty name for the document itself), and an error of the database driver.
\<close>

datatype error =
    InvalidJSON
  | UnmarshalTypeError string string
  | MissingOrderUID
  | MissingNested
  | DBError string

subsection \<open>The store\<close>

text \<open>
  A row of \<open>orders\<close>: the primary key \<open>order_uid\<close> is the key of the map \<open>db\<close>, the
  row holds the document written to the column \<open>payload\<close> and the time of the column
  \<open>created_at\<close>. The column is JSONB: the row keeps the document that was written, and
  what a query gives back for it is the database's own rendering of that document, which
  the contract of the query below takes as it comes.
\<close>

record order_row =
  payload :: string
  created_at :: nat

record Store =
  db :: "string \<rightharpoonup> order_row"
  cache :: "string \<rightharpoonup> string"

text \<open>
  What the database answers to the one statement of \<open>Upsert\<close>: it commits (at its
  time \<open>now()\<close>) or it fails with an error and changes nothing.
\<close>

datatype exec_result = Committed nat | ExecFailed string

text \<open>
  \<open>INSERT INTO orders(order_uid, payload) VALUES($1,$2) ON CONFLICT(order_uid) DO UPDATE
  SET payload=EXCLUDED.payload\<close>: a new row takes the default \<open>created_at = now()\<close>, a
  row that exists keeps its \<open>created_at\<close> and gets the new payload.
\<close>

definition insert_on_conflict_update ::
    "nat \<Rightarrow> string \<Rightarrow> string \<Rightarrow> (string \<rightharpoonup> order_row) \<Rightarrow> (string \<rightharpoonup> order_row)" where
  "insert_on_conflict_update now ident p tbl =
     (case tbl ident of
        None \<Rightarrow> tbl(ident \<mapsto> \<lparr>payload = p, created_at = now\<rparr>)
      | Some r \<Rightarrow> tbl(ident \<mapsto> r\<lparr>payload := p\<rparr>))"

text \<open>
  The effects of the pipeline that the outside can see, in the order the code performs
  them: a statement sent to the database with its outcome, a write to the cache, an
  acknowledgement of a message (by its sequence number), a line of the log.
\<close>

datatype log_line =
    DropInvalid "64 word" error
  | UpsertFailed "64 word" string error
  | StoredOrder string "64 word"

datatype event =
    DbExec string string bool
  | CacheSet string string
  | Ack "64 word"
  | Log log_line

text \<open>
  \<open>Upsert\<close>: the statement first; on an error, return it; otherwise set the cache entry
  and return \<open>nil\<close>. The result is the returned error, the effects in order, and the
  store afterwards.
\<close>

definition Upsert ::
    "exec_result \<Rightarrow> Store \<Rightarrow> string \<Rightarrow> string \<Rightarrow> error option \<times> event list \<times> Store" where
  "Upsert res s ident p =
     (case res of
        ExecFailed msg \<Rightarrow> (Some (DBError msg), [DbExec ident p False], s)
      | Committed now \<Rightarrow>
          (let s1 = s\<lparr>db := insert_on_conflict_update now ident p (db s)\<rparr>;
               s2 = s1\<lparr>cache := (cache s1)(ident \<mapsto> p)\<rparr>
           in (None, [DbExec ident p True, CacheSet ident p], s2)))"

text \<open>
  \<open>Get\<close>: the two-valued map read of Go; an absent key gives the zero value (the
  \<open>nil\<close> message, no bytes) and \<open>false\<close>.
\<close>

definition Get :: "Store \<Rightarrow> string \<Rightarrow> string \<times> bool" where
  "Get s ident = (case cache s ident of Some v \<Rightarrow> (v, True) | None \<Rightarrow> ([], False))"

text \<open>
  What the database answers to \<open>SELECT order_uid, payload FROM orders\<close>: the query
  fails, or it gives a cursor. Each step of the cursor scans one row or fails to; when
  the rows end, \<open>rows.Err()\<close> tells whether they ended by an error.
\<close>

datatype query_result =
    QueryFailed string
  | Rows "(string + string \<times> string) list" "string option"

text \<open>
  The loop of \<open>LoadCache\<close>: a row that does not scan ends the load with its error
  (the entries set so far stay); a row that scans sets its cache entry.
\<close>

fun load_rows :: "(string + string \<times> string) list \<Rightarrow> string option \<Rightarrow> Store \<Rightarrow> error option \<times> Store" where
  "load_rows [] final s = (map_option DBError final, s)"
| "load_rows (Inl msg # rest) final s = (Some (DBError msg), s)"
| "load_rows (Inr (ident, p) # rest) final s =
     load_rows rest final (s\<lparr>cache := (cache s)(ident \<mapsto> p)\<rparr>)"

definition LoadCache :: "query_result \<Rightarrow> Store \<Rightarrow> error option \<times> Store" where
  "LoadCache q s =
     (case q of
        QueryFailed msg \<Rightarrow> (Some (DBError msg), s)
      | Rows rs final \<Rightarrow> load_rows rs final s)"

text \<open>
  \<open>newStore\<close> after the pool is open and \<open>initDB\<close> has run: an empty cache over the
  table as it is, then \<open>LoadCache\<close>; an error gives no store.
\<close>

definition newStore :: "(string \<rightharpoonup> order_row) \<Rightarrow> query_result \<Rightarrow> error + Store" where
  "newStore tbl q =
     (case LoadCache q \<lparr>db = tbl, cache = Map.empty\<rparr> of
        (Some e, _) \<Rightarrow> Inl e
      | (None, s) \<Rightarrow> Inr s)"



subsection \<open>JSON text as \<open>encoding/json\<close> reads it\<close>

text \<open>
  \<open>json.Valid\<close> and \<open>json.Unmarshal\<close> belong to Go's library. They are modelled from
  their behaviour on bytes: the scanner accepts exactly one JSON value between optional
  white space, nested at most 10000 deep; a string literal is unquoted with its escapes
  resolved and its bytes coerced to well-formed UTF-8. A \<open>char\<close> is a byte.
\<close>

datatype json =
    JNull
  | JBool bool
  | JNum string
  | JStr string
  | JArr "json list"
  | JObj "(string \<times> json) list"

datatype token =
    TLBrace | TRBrace | TLBrack | TRBrack | TColon | TComma
  | TString string
  | TNumber string
  | TTrue | TFalse | TNull

definition byte :: "char \<Rightarrow> nat" where
  "byte c = of_char c"

definition is_space :: "char \<Rightarrow> bool" where
  "is_space c = (c = CHR 0x20 \<or> c = CHR 0x09 \<or> c = CHR 0x0D \<or> c = CHR 0x0A)"

definition is_digit :: "char \<Rightarrow> bool" where
  "is_digit c = (48 \<le> byte c \<and> byte c \<le> 57)"

definition hex_val :: "char \<Rightarrow> nat option" where
  "hex_val c =
     (if 48 \<le> byte c \<and> byte c \<le> 57 then Some (byte c - 48)
      else if 97 \<le> byte c \<and> byte c \<le> 102 then Some (byte c - 87)
      else if 65 \<le> byte c \<and> byte c \<le> 70 then Some (byte c - 55)
      else None)"

text \<open>The states of the scanner inside a number; a number may end in four of them.\<close>

datatype nstate = NNeg | N0 | N1 | NDot | NDot0 | NE | NESign | NE0

definition is_exp :: "char \<Rightarrow> bool" where
  "is_exp c = (c = CHR ''e'' \<or> c = CHR ''E'')"

fun num_step :: "nstate \<Rightarrow> char \<Rightarrow> nstate option" where
  "num_step NNeg c = (if c = CHR ''0'' then Some N0 else if is_digit c then Some N1 else None)"
| "num_step N0 c = (if c = CHR ''.'' then Some NDot else if is_exp c then Some NE else None)"
| "num_step N1 c =
     (if is_digit c then Some N1 else if c = CHR ''.'' then Some NDot
      else if is_exp c then Some NE else None)"
| "num_step NDot c = (if is_digit c then Some NDot0 else None)"
| "num_step NDot0 c = (if is_digit c then Some NDot0 else if is_exp c then Some NE else None)"
| "num_step NE c =
     (if c = CHR ''+'' \<or> c = CHR ''-'' then Some NESign
      else if is_digit c then Some NE0 else None)"
| "num_step NESign c = (if is_digit c then Some NE0 else None)"
| "num_step NE0 c = (if is_digit c then Some NE0 else None)"

fun num_accepting :: "nstate \<Rightarrow> bool" where
  "num_accepting N0 = True"
| "num_accepting N1 = True"
| "num_accepting NDot0 = True"
| "num_accepting NE0 = True"
| "num_accepting _ = False"

text \<open>
  The scanner between and inside tokens: idle, in a string (the raw bytes read so far,
  last first), after a backslash, in the hex digits of a \<open>\u\<close> escape, in a number, in
  one of the three literal names (the letters still to come).
\<close>

datatype lstate =
    LIdle
  | LStr string
  | LStrEsc string
  | LStrU nat string
  | LNum nstate string
  | LLit string token

definition lex_idle :: "char \<Rightarrow> token list \<Rightarrow> (lstate \<times> token list) option" where
  "lex_idle c toks =
     (if is_space c then Some (LIdle, toks)
      else if c = CHR ''{'' then Some (LIdle, TLBrace # toks)
      else if c = CHR ''}'' then Some (LIdle, TRBrace # toks)
      else if c = CHR ''['' then Some (LIdle, TLBrack # toks)
      else if c = CHR '']'' then Some (LIdle, TRBrack # toks)
      else if c = CHR '':'' then Some (LIdle, TColon # toks)
      else if c = CHR '','' then Some (LIdle, TComma # toks)
      else if c = CHR 0x22 then Some (LStr [], toks)
      else if c = CHR ''-'' then Some (LNum NNeg [c], toks)
      else if c = CHR ''0'' then Some (LNum N0 [c], toks)
      else if is_digit c then Some (LNum N1 [c], toks)
      else if c = CHR ''t'' then Some (LLit ''rue'' TTrue, toks)
      else if c = CHR ''f'' then Some (LLit ''alse'' TFalse, toks)
      else if c = CHR ''n'' then Some (LLit ''ull'' TNull, toks)
      else None)"

fun lex_step :: "lstate \<Rightarrow> char \<Rightarrow> token list \<Rightarrow> (lstate \<times> token list) option" where
  "lex_step LIdle c toks = lex_idle c toks"
| "lex_step (LStr acc) c toks =
     (if c = CHR 0x22 then Some (LIdle, TString (rev acc) # toks)
      else if c = CHR 0x5C then Some (LStrEsc (c # acc), toks)
      else if byte c < 32 then None
      else Some (LStr (c # acc), toks))"
| "lex_step (LStrEsc acc) c toks =
     (if c \<in> set [CHR ''b'', CHR ''f'', CHR ''n'', CHR ''r'', CHR ''t'', CHR 0x5C, CHR ''/'', CHR 0x22]
      then Some (LStr (c # acc), toks)
      else if c = CHR ''u'' then Some (LStrU 4 (c # acc), toks)
      else None)"
| "lex_step (LStrU n acc) c toks =
     (if hex_val c = None then None
      else if n \<le> 1 then Some (LStr (c # acc), toks)
      else Some (LStrU (n - 1) (c # acc), toks))"
| "lex_step (LNum st acc) c toks =
     (case num_step st c of
        Some st' \<Rightarrow> Some (LNum st' (c # acc), toks)
      | None \<Rightarrow> if num_accepting st then lex_idle c (TNumber (rev acc) # toks) else None)"
| "lex_step (LLit rest tok) c toks =
     (case rest of
        [] \<Rightarrow> None
      | x # xs \<Rightarrow>
          if c \<noteq> x then None
          else if xs = [] then Some (LIdle, tok # toks)
          else Some (LLit xs tok, toks))"

fun lex_finish :: "lstate \<Rightarrow> token list \<Rightarrow> token list option" where
  "lex_finish LIdle toks = Some toks"
| "lex_finish (LNum st acc) toks =
     (if num_accepting st then Some (TNumber (rev acc) # toks) else None)"
| "lex_finish _ toks = None"

fun lex_from :: "lstate \<Rightarrow> token list \<Rightarrow> string \<Rightarrow> token list option" where
  "lex_from st toks [] = map_option rev (lex_finish st toks)"
| "lex_from st toks (c # cs) =
     (case lex_step st c toks of
        None \<Rightarrow> None
      | Some (st', toks') \<Rightarrow> lex_from st' toks' cs)"

definition tokenize :: "string \<Rightarrow> token list option" where
  "tokenize bs = lex_from LIdle [] bs"

text \<open>
  Unquoting a string literal (\<open>unquote\<close> of the decoder), on the raw bytes between the
  quotes. \<open>EncodeRune\<close> writes a code point in UTF-8, the replacement character
  \<open>U+FFFD\<close> for a surrogate or a value out of range; \<open>utf8_size\<close> is the length of the
  well-formed UTF-8 sequence at the head of the bytes, 0 when there is none.
\<close>

definition EncodeRune :: "nat \<Rightarrow> string" where
  "EncodeRune r =
     (if r < 0x80 then [char_of r]
      else if r < 0x800 then [char_of (0xC0 + r div 64), char_of (0x80 + r mod 64)]
      else if (0xD800 \<le> r \<and> r < 0xE000) \<or> 0x10FFFF < r then [CHR 0xEF, CHR 0xBF, CHR 0xBD]
      else if r < 0x10000 then
        [char_of (0xE0 + r div 4096), char_of (0x80 + (r div 64) mod 64), char_of (0x80 + r mod 64)]
      else
        [char_of (0xF0 + r div 262144), char_of (0x80 + (r div 4096) mod 64),
         char_of (0x80 + (r div 64) mod 64), char_of (0x80 + r mod 64)])"

definition in_range :: "nat \<Rightarrow> nat \<Rightarrow> char \<Rightarrow> bool" where
  "in_range lo hi c = (lo \<le> byte c \<and> byte c \<le> hi)"

definition utf8_size :: "string \<Rightarrow> nat" where
  "utf8_size bs =
     (case bs of
        [] \<Rightarrow> 0
      | b0 # r0 \<Rightarrow>
          if byte b0 < 0x80 then 1
          else if in_range 0xC2 0xDF b0 then
            (case r0 of b1 # _ \<Rightarrow> if in_range 0x80 0xBF b1 then 2 else 0 | _ \<Rightarrow> 0)
          else if in_range 0xE0 0xEF b0 then
            (case r0 of
               b1 # b2 # _ \<Rightarrow>
                 if in_range (if byte b0 = 0xE0 then 0xA0 else 0x80)
                      (if byte b0 = 0xED then 0x9F else 0xBF) b1
                    \<and> in_range 0x80 0xBF b2
                 then 3 else 0
             | _ \<Rightarrow> 0)
          else if in_range 0xF0 0xF4 b0 then
            (case r0 of
               b1 # b2 # b3 # _ \<Rightarrow>
                 if in_range (if byte b0 = 0xF0 then 0x90 else 0x80)
                      (if byte b0 = 0xF4 then 0x8F else 0xBF) b1
                    \<and> in_range 0x80 0xBF b2 \<and> in_range 0x80 0xBF b3
                 then 4 else 0
             | _ \<Rightarrow> 0)
          else 0)"

text \<open>\<open>getu4\<close>: the value of a \<open>\uXXXX\<close> escape at the head of the bytes, if there is one.\<close>

definition getu4 :: "string \<Rightarrow> nat option" where
  "getu4 bs =
     (case bs of
        b # u # h1 # h2 # h3 # h4 # _ \<Rightarrow>
          if b = CHR 0x5C \<and> u = CHR ''u'' then
            (case (hex_val h1, hex_val h2, hex_val h3, hex_val h4) of
               (Some a1, Some a2, Some a3, Some a4) \<Rightarrow> Some (((a1 * 16 + a2) * 16 + a3) * 16 + a4)
             | _ \<Rightarrow> None)
          else None
      | _ \<Rightarrow> None)"

definition is_surrogate :: "nat \<Rightarrow> bool" where
  "is_surrogate r = (0xD800 \<le> r \<and> r < 0xE000)"

text \<open>The code point of a surrogate pair, \<open>U+FFFD\<close> when the two are not a pair.\<close>

definition utf16_DecodeRune :: "nat \<Rightarrow> nat \<Rightarrow> nat" where
  "utf16_DecodeRune r1 r2 =
     (if 0xD800 \<le> r1 \<and> r1 < 0xDC00 \<and> 0xDC00 \<le> r2 \<and> r2 < 0xE000
      then (r1 - 0xD800) * 1024 + (r2 - 0xDC00) + 0x10000
      else 0xFFFD)"

definition unescape :: "char \<Rightarrow> char" where
  "unescape c =
     (if c = CHR ''b'' then CHR 0x08
      else if c = CHR ''f'' then CHR 0x0C
      else if c = CHR ''n'' then CHR 0x0A
      else if c = CHR ''r'' then CHR 0x0D
      else if c = CHR ''t'' then CHR 0x09
      else c)"

text \<open>
  The scanner has accepted the literal before it is unquoted, so a backslash is followed
  by a full escape; the branches for a cut escape end the string and are never taken.
\<close>

fun unquote :: "string \<Rightarrow> string" where
  "unquote [] = []"
| "unquote (c # cs) =
     (if c = CHR 0x5C then
        (case cs of
           [] \<Rightarrow> []
         | e # rest \<Rightarrow>
             if e = CHR ''u'' then
               (case getu4 (c # cs) of
                  None \<Rightarrow> []
                | Some rr \<Rightarrow>
                    if is_surrogate rr then
                      (case getu4 (drop 4 rest) of
                         None \<Rightarrow> EncodeRune 0xFFFD @ unquote (drop 4 rest)
                       | Some rr1 \<Rightarrow>
                           if utf16_DecodeRune rr rr1 \<noteq> 0xFFFD
                           then EncodeRune (utf16_DecodeRune rr rr1) @ unquote (drop 10 rest)
                           else EncodeRune 0xFFFD @ unquote (drop 4 rest))
                    else EncodeRune rr @ unquote (drop 4 rest))
             else unescape e # unquote rest)
      else if byte c < 0x80 then c # unquote cs
      else if utf8_size (c # cs) = 0 then EncodeRune 0xFFFD @ unquote cs
      else take (utf8_size (c # cs)) (c # cs) @ unquote (drop (utf8_size (c # cs) - 1) cs))"

text \<open>
  The parser over the tokens: a stack of the open arrays and objects, each with what it
  has collected (last first), an object also with the key whose value is awaited.
\<close>

datatype frame =
    InArr "json list"
  | InObj "(string \<times> json) list" "string option"

datatype expect =
    EValue
  | EValueOrEnd
  | EKeyOrEnd
  | EKey
  | EColon
  | ECommaOrEnd
  | EDone json

definition maxNestingDepth :: nat where
  "maxNestingDepth = 10000"

text \<open>A value is complete: it is the document, or it goes into the innermost container.\<close>

fun push_value :: "json \<Rightarrow> frame list \<Rightarrow> (expect \<times> frame list) option" where
  "push_value v [] = Some (EDone v, [])"
| "push_value v (InArr es # st) = Some (ECommaOrEnd, InArr (v # es) # st)"
| "push_value v (InObj ms (Some k) # st) = Some (ECommaOrEnd, InObj ((k, v) # ms) None # st)"
| "push_value v (InObj ms None # st) = None"

definition open_container :: "expect \<Rightarrow> frame \<Rightarrow> frame list \<Rightarrow> (expect \<times> frame list) option" where
  "open_container e f st =
     (if length st < maxNestingDepth then Some (e, f # st) else None)"

definition parse_value :: "token \<Rightarrow> frame list \<Rightarrow> (expect \<times> frame list) option" where
  "parse_value t st =
     (case t of
        TLBrace \<Rightarrow> open_container EKeyOrEnd (InObj [] None) st
      | TLBrack \<Rightarrow> open_container EValueOrEnd (InArr []) st
      | TString raw \<Rightarrow> push_value (JStr (unquote raw)) st
      | TNumber lit \<Rightarrow> push_value (JNum lit) st
      | TTrue \<Rightarrow> push_value (JBool True) st
      | TFalse \<Rightarrow> push_value (JBool False) st
      | TNull \<Rightarrow> push_value JNull st
      | _ \<Rightarrow> None)"

fun close_array :: "frame list \<Rightarrow> (expect \<times> frame list) option" where
  "close_array (InArr es # st) = push_value (JArr (rev es)) st"
| "close_array _ = None"

fun close_object :: "frame list \<Rightarrow> (expect \<times> frame list) option" where
  "close_object (InObj ms None # st) = push_value (JObj (rev ms)) st"
| "close_object _ = None"

fun await_key :: "string \<Rightarrow> frame list \<Rightarrow> (expect \<times> frame list) option" where
  "await_key raw (InObj ms None # st) = Some (EColon, InObj ms (Some (unquote raw)) # st)"
| "await_key raw _ = None"

fun after_comma :: "frame list \<Rightarrow> (expect \<times> frame list) option" where
  "after_comma (InArr es # st) = Some (EValue, InArr es # st)"
| "after_comma (InObj ms k # st) = Some (EKey, InObj ms k # st)"
| "after_comma [] = None"

fun parse_step :: "expect \<Rightarrow> token \<Rightarrow> frame list \<Rightarrow> (expect \<times> frame list) option" where
  "parse_step EValue t st = parse_value t st"
| "parse_step EValueOrEnd t st = (if t = TRBrack then close_array st else parse_value t st)"
| "parse_step EKeyOrEnd t st =
     (case t of TString raw \<Rightarrow> await_key raw st | TRBrace \<Rightarrow> close_object st | _ \<Rightarrow> None)"
| "parse_step EKey t st = (case t of TString raw \<Rightarrow> await_key raw st | _ \<Rightarrow> None)"
| "parse_step EColon t st = (if t = TColon then Some (EValue, st) else None)"
| "parse_step ECommaOrEnd t st =
     (case t of
        TComma \<Rightarrow> after_comma st
      | TRBrack \<Rightarrow> close_array st
      | TRBrace \<Rightarrow> close_object st
      | _ \<Rightarrow> None)"
| "parse_step (EDone v) t st = None"

fun parse_from :: "expect \<Rightarrow> frame list \<Rightarrow> token list \<Rightarrow> json option" where
  "parse_from e st [] = (case e of EDone v \<Rightarrow> Some v | _ \<Rightarrow> None)"
| "parse_from e st (t # ts) =
     (case parse_step e t st of
        None \<Rightarrow> None
      | Some (e', st') \<Rightarrow> parse_from e' st' ts)"

text \<open>The document of a payload; \<open>None\<close> is \<open>!json.Valid(payload)\<close>.\<close>

definition parse_json :: "string \<Rightarrow> json option" where
  "parse_json bs =
     (case tokenize bs of None \<Rightarrow> None | Some ts \<Rightarrow> parse_from EValue [] ts)"

subsection \<open>Validation\<close>

text \<open>
  The decoder finds the field of a key by the exact name, and failing that by the name
  folded: ASCII letters to upper case, the long s \<open>U+017F\<close> to \<open>S\<close>, the Kelvin sign
  \<open>U+212A\<close> to \<open>K\<close>. Go folds every other letter beyond ASCII to the least of its case
  variants, which is again beyond ASCII; such bytes are kept here as they are, which
  changes nothing for the names of this program, all ASCII.
\<close>

fun foldName :: "string \<Rightarrow> string" where
  "foldName [] = []"
| "foldName (c # cs) =
     (if byte c < 0x80 then
        (if 97 \<le> byte c \<and> byte c \<le> 122 then char_of (byte c - 32) else c) # foldName cs
      else if c = CHR 0xC5 \<and> take 1 cs = [CHR 0xBF] then CHR ''S'' # foldName (drop 1 cs)
      else if c = CHR 0xE2 \<and> take 2 cs = [CHR 0x84, CHR 0xAA] then CHR ''K'' # foldName (drop 2 cs)
      else c # foldName cs)"

definition lookup_field :: "string list \<Rightarrow> string \<Rightarrow> string option" where
  "lookup_field names key =
     (if key \<in> set names then Some key
      else find (\<lambda>n. foldName n = foldName key) names)"

text \<open>
  The anonymous struct \<open>tmp\<close> of \<open>minimalValidateOrder\<close>. A \<open>*json.RawMessage\<close> is
  \<open>nil\<close> or holds the bytes of a value, kept here as the value; \<open>Items\<close> is the list of
  the elements' values, empty for the \<open>nil\<close> slice too (only its length is read).
\<close>

record tmp =
  OrderUID :: string
  Delivery :: "json option"
  Payment :: "json option"
  Items :: "json list"

definition tmp_zero :: tmp where
  "tmp_zero = \<lparr>OrderUID = [], Delivery = None, Payment = None, Items = []\<rparr>"

definition tmp_fields :: "string list" where
  "tmp_fields = [''order_uid'', ''delivery'', ''payment'', ''items'']"

fun json_kind :: "json \<Rightarrow> string" where
  "json_kind JNull = ''null''"
| "json_kind (JBool _) = ''bool''"
| "json_kind (JNum _) = ''number''"
| "json_kind (JStr _) = ''string''"
| "json_kind (JArr _) = ''array''"
| "json_kind (JObj _) = ''object''"

text \<open>The decoder keeps the first type error and goes on.\<close>

fun saveError :: "error \<Rightarrow> error option \<Rightarrow> error option" where
  "saveError e None = Some e"
| "saveError e (Some e0) = Some e0"

text \<open>
  One member of the object into \<open>tmp\<close>: a string sets \<open>OrderUID\<close>, \<open>null\<close> leaves it,
  anything else is a type error; \<open>null\<close> sets a \<open>*json.RawMessage\<close> to \<open>nil\<close>, any other
  value to its bytes; an array sets \<open>Items\<close>, \<open>null\<close> sets it to \<open>nil\<close>, anything else is
  a type error. A key that names no field is skipped.
\<close>

definition decode_member :: "string \<times> json \<Rightarrow> tmp \<times> error option \<Rightarrow> tmp \<times> error option" where
  "decode_member m acc =
     (case (m, acc) of ((k, v), (t, err)) \<Rightarrow>
        (case lookup_field tmp_fields k of
           None \<Rightarrow> (t, err)
         | Some f \<Rightarrow>
             if f = ''order_uid'' then
               (case v of
                  JStr str \<Rightarrow> (t\<lparr>OrderUID := str\<rparr>, err)
                | JNull \<Rightarrow> (t, err)
                | _ \<Rightarrow> (t, saveError (UnmarshalTypeError (json_kind v) ''order_uid'') err))
             else if f = ''delivery'' then
               (case v of
                  JNull \<Rightarrow> (t\<lparr>Delivery := None\<rparr>, err)
                | _ \<Rightarrow> (t\<lparr>Delivery := Some v\<rparr>, err))
             else if f = ''payment'' then
               (case v of
                  JNull \<Rightarrow> (t\<lparr>Payment := None\<rparr>, err)
                | _ \<Rightarrow> (t\<lparr>Payment := Some v\<rparr>, err))
             else
               (case v of
                  JArr xs \<Rightarrow> (t\<lparr>Items := xs\<rparr>, err)
                | JNull \<Rightarrow> (t\<lparr>Items := []\<rparr>, err)
                | _ \<Rightarrow> (t, saveError (UnmarshalTypeError (json_kind v) ''items'') err))))"

fun decode_members :: "(string \<times> json) list \<Rightarrow> tmp \<times> error option \<Rightarrow> tmp \<times> error option" where
  "decode_members [] acc = acc"
| "decode_members (m # ms) acc = decode_members ms (decode_member m acc)"

text \<open>
  \<open>json.Unmarshal(payload, &tmp)\<close> on a valid document: an object is decoded member by
  member in the order of the text, \<open>null\<close> leaves the struct as it is, any other value is
  a type error.
\<close>

definition Unmarshal_tmp :: "json \<Rightarrow> tmp \<times> error option" where
  "Unmarshal_tmp doc =
     (case doc of
        JObj ms \<Rightarrow> decode_members ms (tmp_zero, None)
      | JNull \<Rightarrow> (tmp_zero, None)
      | _ \<Rightarrow> (tmp_zero, Some (UnmarshalTypeError (json_kind doc) [])))"

definition minimalValidateOrder :: "string \<Rightarrow> error + string" where
  "minimalValidateOrder bs =
     (case parse_json bs of
        None \<Rightarrow> Inl InvalidJSON
      | Some doc \<Rightarrow>
          (case Unmarshal_tmp doc of
             (t, Some e) \<Rightarrow> Inl e
           | (t, None) \<Rightarrow>
               if OrderUID t = [] then Inl MissingOrderUID
               else if Delivery t = None \<or> Payment t = None \<or> length (Items t) = 0
               then Inl MissingNested
               else Inr (OrderUID t)))"

subsection \<open>The handler of a message\<close>

record Msg =
  Sequence :: "64 word"
  Data :: string

text \<open>
  The callback of \<open>QueueSubscribe\<close> in \<open>main\<close>. The database is asked only when the
  payload validates; \<open>res\<close> is what it answers then.
\<close>

definition handleMsg :: "exec_result \<Rightarrow> Store \<Rightarrow> Msg \<Rightarrow> event list \<times> Store" where
  "handleMsg res s m =
     (case minimalValidateOrder (Data m) of
        Inl vErr \<Rightarrow> ([Log (DropInvalid (Sequence m) vErr), Ack (Sequence m)], s)
      | Inr ident \<Rightarrow>
          (case Upsert res s ident (Data m) of
             (Some err, evs, s') \<Rightarrow> (evs @ [Log (UpsertFailed (Sequence m) ident err)], s')
           | (None, evs, s') \<Rightarrow>
               (evs @ [Ack (Sequence m), Log (StoredOrder ident (Sequence m))], s')))"

subsection \<open>HTTP\<close>

record 'b response =
  status :: nat
  header :: "(string \<times> string) list"
  body :: 'b

definition StatusOK :: nat where "StatusOK = 200"
definition StatusBadRequest :: nat where "StatusBadRequest = 400"
definition StatusNotFound :: nat where "StatusNotFound = 404"

text \<open>\<open>http.Error\<close>: a plain-text reply, the message and a line feed.\<close>

definition http_Error :: "string \<Rightarrow> nat \<Rightarrow> string response" where
  "http_Error msg code =
     \<lparr>status = code,
      header = [(''Content-Type'', ''text/plain; charset=utf-8''),
                (''X-Content-Type-Options'', ''nosniff'')],
      body = msg @ [CHR 0x0A]\<rparr>"

definition TrimPrefix :: "string \<Rightarrow> string \<Rightarrow> string" where
  "TrimPrefix str pre =
     (if take (length pre) str = pre then drop (length pre) str else str)"

text \<open>\<open>apiHandler\<close> on the path of the request's URL.\<close>

definition apiHandler :: "Store \<Rightarrow> string \<Rightarrow> string response" where
  "apiHandler store path =
     (let ident = TrimPrefix path ''/api/orders/'' in
      if ident = [] \<or> ident = path then http_Error ''missing id'' StatusBadRequest
      else
        (case Get store ident of
           (p, True) \<Rightarrow>
             \<lparr>status = StatusOK,
              header = [(''Content-Type'', ''application/json; charset=utf-8'')],
              body = p\<rparr>
         | (_, False) \<Rightarrow> http_Error ''not found'' StatusNotFound))"

text \<open>The structs of an order, as the page shows them.\<close>

record Delivery =
  Delivery_Name :: string
  Delivery_Phone :: string
  Delivery_Zip :: string
  Delivery_City :: string
  Delivery_Address :: string
  Delivery_Region :: string
  Delivery_Email :: string

record Payment =
  Payment_Transaction :: string
  Payment_RequestID :: string
  Payment_Currency :: string
  Payment_Provider :: string
  Payment_Bank :: string
  Payment_Amount :: "64 word"
  Payment_PaymentDT :: "64 word"
  Payment_DeliveryCost :: "64 word"
  Payment_GoodsTotal :: "64 word"
  Payment_CustomFee :: "64 word"

record Item =
  Item_ChrtID :: "64 word"
  Item_TrackNumber :: string
  Item_Price :: "64 word"
  Item_RID :: string
  Item_Name :: string
  Item_Sale :: "64 word"
  Item_Size :: string
  Item_TotalPrice :: "64 word"
  Item_NMID :: "64 word"
  Item_Brand :: string
  Item_Status :: "64 word"

record Order =
  Order_OrderUID :: string
  Order_TrackNumber :: string
  Order_Entry :: string
  Order_Locale :: string
  Order_InternalSign :: string
  Order_CustomerID :: string
  Order_DeliveryService :: string
  Order_ShardKey :: string
  Order_DateCreated :: string
  Order_OOFShard :: string
  Order_Delivery :: Delivery
  Order_Payment :: Payment
  Order_Items :: "Item list"
  Order_SmID :: "64 word"

definition Order_zero :: Order where
  "Order_zero =
     \<lparr>Order_OrderUID = [], Order_TrackNumber = [], Order_Entry = [], Order_Locale = [],
      Order_InternalSign = [], Order_CustomerID = [], Order_DeliveryService = [],
      Order_ShardKey = [], Order_DateCreated = [], Order_OOFShard = [],
      Order_Delivery =
        \<lparr>Delivery_Name = [], Delivery_Phone = [], Delivery_Zip = [], Delivery_City = [],
         Delivery_Address = [], Delivery_Region = [], Delivery_Email = []\<rparr>,
      Order_Payment =
        \<lparr>Payment_Transaction = [], Payment_RequestID = [], Payment_Currency = [],
         Payment_Provider = [], Payment_Bank = [], Payment_Amount = 0, Payment_PaymentDT = 0,
         Payment_DeliveryCost = 0, Payment_GoodsTotal = 0, Payment_CustomFee = 0\<rparr>,
      Order_Items = [], Order_SmID = 0\<rparr>"

text \<open>The data handed to the template.\<close>

record page_data =
  ID :: string
  Found :: bool
  Order :: Order
  Raw :: string

text \<open>
  What the template writes after the search form (which always shows \<open>.ID\<close>): the
  order with its raw JSON under \<open>if .Found\<close>, the line that the order is not in the
  cache under \<open>else if .ID\<close>, nothing otherwise. The HTML around them is left out.
\<close>

datatype result_block =
    OrderBlock Order string
  | NotFoundBlock string
  | NoBlock

record page =
  search_value :: string
  block :: result_block

definition pageTpl :: "page_data \<Rightarrow> page" where
  "pageTpl d =
     \<lparr>search_value = ID d,
      block = (if Found d then OrderBlock (Order d) (Raw d)
               else if ID d \<noteq> [] then NotFoundBlock (ID d)
               else NoBlock)\<rparr>"

text \<open>\<open>r.URL.Query().Get(key)\<close>: the first value of the key, the empty string without one.\<close>

definition Query_Get :: "(string \<times> string) list \<Rightarrow> string \<Rightarrow> string" where
  "Query_Get q key = (case map_of q key of Some v \<Rightarrow> v | None \<Rightarrow> [])"

text \<open>
  \<open>pageHandler\<close> on the query of the request's URL. Decoding into the struct \<open>Order\<close> is
  the library's work, done at most once in a request: \<open>res\<close> is what
  \<open>json.Unmarshal(payload, &data.Order)\<close> gives when it is called, the struct as the
  decoder leaves it and the error it returns. The handler never writes a status, so the
  reply goes out with 200.
\<close>

definition pageHandler ::
    "Order \<times> error option \<Rightarrow> Store \<Rightarrow> (string \<times> string) list \<Rightarrow> page response" where
  "pageHandler res store q =
     (let ident = Query_Get q ''id'';
          data = \<lparr>ID = ident, Found = False, Order = Order_zero, Raw = []\<rparr>;
          data' =
            (if ident \<noteq> [] then
               (case Get store ident of
                  (p, True) \<Rightarrow> data\<lparr>Found := True, Raw := p, Order := fst res\<rparr>
                | (_, False) \<Rightarrow> data)
             else data)
      in \<lparr>status = StatusOK,
          header = [(''Content-Type'', ''text/html; charset=utf-8'')],
          body = pageTpl data'\<rparr>)"

subsection \<open>Predicates of the properties\<close>

text \<open>Every cache entry has its row in the table, with the same payload.\<close>

definition cache_committed :: "Store \<Rightarrow> bool" where
  "cache_committed s =
     (\<forall>ident p. cache s ident = Some p \<longrightarrow> (\<exists>r. db s ident = Some r \<and> payload r = p))"


text \<open>
  A document seen from outside the decoder. The members of its object (none for any
  other value), and the values of the members that name a field, in the order of the
  text; a name may come more than once.
\<close>

definition members :: "json \<Rightarrow> (string \<times> json) list" where
  "members doc = (case doc of JObj ms \<Rightarrow> ms | _ \<Rightarrow> [])"

definition names_field :: "string \<Rightarrow> string \<Rightarrow> bool" where
  "names_field f k = (lookup_field tmp_fields k = Some f)"

definition field_values :: "string \<Rightarrow> (string \<times> json) list \<Rightarrow> json list" where
  "field_values f ms = map snd (filter (\<lambda>m. names_field f (fst m)) ms)"

definition last_or :: "'a \<Rightarrow> 'a list \<Rightarrow> 'a" where
  "last_or d xs = (if xs = [] then d else last xs)"

text \<open>The values that the field \<open>order_uid\<close> and the field \<open>items\<close> can take.\<close>

fun fits_string :: "json \<Rightarrow> bool" where
  "fits_string (JStr _) = True"
| "fits_string JNull = True"
| "fits_string _ = False"

fun fits_slice :: "json \<Rightarrow> bool" where
  "fits_slice (JArr _) = True"
| "fits_slice JNull = True"
| "fits_slice _ = False"

fun is_string :: "json \<Rightarrow> bool" where
  "is_string (JStr _) = True"
| "is_string _ = False"

text \<open>
  The identifier of a document: the last string given for \<open>order_uid\<close>, empty without
  one. A section: the last value given for it, if there is one and it is not \<open>null\<close>.
  The items: the elements of the last array or \<open>null\<close> given for \<open>items\<close>.
\<close>

definition uid_of :: "(string \<times> json) list \<Rightarrow> string" where
  "uid_of ms =
     (case last_or JNull (filter is_string (field_values ''order_uid'' ms)) of
        JStr str \<Rightarrow> str
      | _ \<Rightarrow> [])"

definition section_of :: "string \<Rightarrow> (string \<times> json) list \<Rightarrow> json option" where
  "section_of f ms =
     (case last_or JNull (field_values f ms) of JNull \<Rightarrow> None | v \<Rightarrow> Some v)"

definition items_of :: "(string \<times> json) list \<Rightarrow> json list" where
  "items_of ms =
     (case last_or JNull (filter fits_slice (field_values ''items'' ms)) of
        JArr xs \<Rightarrow> xs
      | _ \<Rightarrow> [])"

text \<open>
  A document of the wrong shape for \<open>tmp\<close>: not an object and not \<open>null\<close>, or an object
  that gives \<open>order_uid\<close> a value that is no string, or \<open>items\<close> a value that is no array.
\<close>

definition type_mismatch :: "json \<Rightarrow> bool" where
  "type_mismatch doc =
     (case doc of
        JObj ms \<Rightarrow>
          \<not> list_all fits_string (field_values ''order_uid'' ms) \<or>
          \<not> list_all fits_slice (field_values ''items'' ms)
      | JNull \<Rightarrow> False
      | _ \<Rightarrow> True)"

text \<open>
  The words of the specification on a payload's object: it carries an identifier, a
  section is present and not \<open>null\<close>, the items are present as a list that is not empty.
\<close>

definition carries_uid :: "(string \<times> json) list \<Rightarrow> string \<Rightarrow> bool" where
  "carries_uid ms uid = (uid \<noteq> [] \<and> JStr uid \<in> set (field_values ''order_uid'' ms))"

definition section_present :: "string \<Rightarrow> (string \<times> json) list \<Rightarrow> bool" where
  "section_present f ms = list_ex (\<lambda>v. v \<noteq> JNull) (field_values f ms)"

fun nonempty_list :: "json \<Rightarrow> bool" where
  "nonempty_list (JArr (x # xs)) = True"
| "nonempty_list _ = False"

definition items_present :: "(string \<times> json) list \<Rightarrow> bool" where
  "items_present ms = list_ex nonempty_list (field_values ''items'' ms)"

text \<open>No field is named by two members.\<close>

definition fields_once :: "(string \<times> json) list \<Rightarrow> bool" where
  "fields_once ms = list_all (\<lambda>f. length (field_values f ms) \<le> 1) tmp_fields"


subsection \<open>The payloads of the scenarios\<close>

definition scenario_valid :: string where
  \<open>scenario_valid = ''{"order_uid":"A1","delivery":{},"payment":{},"items":[{"x":1}]}''\<close>

definition scenario_empty_items :: string where
  \<open>scenario_empty_items = ''{"order_uid":"A1","delivery":{},"payment":{},"items":[]}''\<close>

definition scenario_items_thrice :: string where
  \<open>scenario_items_thrice =
     ''{"order_uid":"A1","delivery":{},"payment":{},"items":[{"x":1}],"Items":"z","ITEMS":[{"x":1}]}''\<close>

definition scenario_uid_number :: string where
  \<open>scenario_uid_number = ''{"order_uid":5,"delivery":{},"payment":{},"items":[{"x":1}]}''\<close>

section \<open>Properties\<close>

subsection \<open>The decoder, member by member\<close>

lemma lookup_field_tmp:
  "lookup_field tmp_fields k = Some f \<Longrightarrow>
     f = ''order_uid'' \<or> f = ''delivery'' \<or> f = ''payment'' \<or> f = ''items''"
  by (auto simp: lookup_field_def tmp_fields_def split: if_splits)

lemma decode_members_snoc:
  "decode_members (ms @ [m]) acc = decode_member m (decode_members ms acc)"
  by (induction ms arbitrary: acc) simp_all

lemma field_values_snoc:
  "field_values f (ms @ [(k, v)]) = field_values f ms @ (if names_field f k then [v] else [])"
  by (simp add: field_values_def)

lemma last_or_snoc [simp]: "last_or d (xs @ [x]) = x"
  by (simp add: last_or_def)

lemma last_or_Nil [simp]: "last_or d [] = d"
  by (simp add: last_or_def)

lemma last_or_single [simp]: "last_or d [x] = x"
  by (simp add: last_or_def)

lemma names_field_unique: "names_field f k \<Longrightarrow> names_field g k \<Longrightarrow> f = g"
  by (simp add: names_field_def)

lemma decode_member_unfold:
  "decode_member (k, v) (t, err) =
     (if names_field ''order_uid'' k then
        (case v of
           JStr str \<Rightarrow> (t\<lparr>OrderUID := str\<rparr>, err)
         | JNull \<Rightarrow> (t, err)
         | _ \<Rightarrow> (t, saveError (UnmarshalTypeError (json_kind v) ''order_uid'') err))
      else if names_field ''delivery'' k then
        (case v of JNull \<Rightarrow> (t\<lparr>Delivery := None\<rparr>, err) | _ \<Rightarrow> (t\<lparr>Delivery := Some v\<rparr>, err))
      else if names_field ''payment'' k then
        (case v of JNull \<Rightarrow> (t\<lparr>Payment := None\<rparr>, err) | _ \<Rightarrow> (t\<lparr>Payment := Some v\<rparr>, err))
      else if names_field ''items'' k then
        (case v of
           JArr xs \<Rightarrow> (t\<lparr>Items := xs\<rparr>, err)
         | JNull \<Rightarrow> (t\<lparr>Items := []\<rparr>, err)
         | _ \<Rightarrow> (t, saveError (UnmarshalTypeError (json_kind v) ''items'') err))
      else (t, err))"
proof (cases "lookup_field tmp_fields k")
  case None
  then show ?thesis by (simp add: decode_member_def names_field_def)
next
  case (Some f)
  from lookup_field_tmp[OF this] Some show ?thesis
    by (auto simp: decode_member_def names_field_def)
qed

lemma decode_OrderUID:
  "OrderUID (fst (decode_members ms (tmp_zero, None))) = uid_of ms"
proof (induction ms rule: rev_induct)
  case Nil
  then show ?case by (simp add: uid_of_def field_values_def tmp_zero_def)
next
  case (snoc m ms)
  obtain k v where m: "m = (k, v)" by (cases m)
  obtain t err where d: "decode_members ms (tmp_zero, None) = (t, err)"
    by (cases "decode_members ms (tmp_zero, None)")
  with snoc have ih: "OrderUID t = uid_of ms" by simp
  show ?case
    unfolding m decode_members_snoc d decode_member_unfold
    using ih
    by (cases v) (auto simp: uid_of_def field_values_snoc dest: names_field_unique)
qed

lemma decode_Delivery:
  "Delivery (fst (decode_members ms (tmp_zero, None))) = section_of ''delivery'' ms"
proof (induction ms rule: rev_induct)
  case Nil
  then show ?case by (simp add: section_of_def field_values_def tmp_zero_def)
next
  case (snoc m ms)
  obtain k v where m: "m = (k, v)" by (cases m)
  obtain t err where d: "decode_members ms (tmp_zero, None) = (t, err)"
    by (cases "decode_members ms (tmp_zero, None)")
  with snoc have ih: "Delivery t = section_of ''delivery'' ms" by simp
  show ?case
    unfolding m decode_members_snoc d decode_member_unfold
    using ih
    by (cases v) (auto simp: section_of_def field_values_snoc dest: names_field_unique)
qed

lemma decode_Payment:
  "Payment (fst (decode_members ms (tmp_zero, None))) = section_of ''payment'' ms"
proof (induction ms rule: rev_induct)
  case Nil
  then show ?case by (simp add: section_of_def field_values_def tmp_zero_def)
next
  case (snoc m ms)
  obtain k v where m: "m = (k, v)" by (cases m)
  obtain t err where d: "decode_members ms (tmp_zero, None) = (t, err)"
    by (cases "decode_members ms (tmp_zero, None)")
  with snoc have ih: "Payment t = section_of ''payment'' ms" by simp
  show ?case
    unfolding m decode_members_snoc d decode_member_unfold
    using ih
    by (cases v) (auto simp: section_of_def field_values_snoc dest: names_field_unique)
qed

lemma decode_Items:
  "Items (fst (decode_members ms (tmp_zero, None))) = items_of ms"
proof (induction ms rule: rev_induct)
  case Nil
  then show ?case by (simp add: items_of_def field_values_def tmp_zero_def)
next
  case (snoc m ms)
  obtain k v where m: "m = (k, v)" by (cases m)
  obtain t err where d: "decode_members ms (tmp_zero, None) = (t, err)"
    by (cases "decode_members ms (tmp_zero, None)")
  with snoc have ih: "Items t = items_of ms" by simp
  show ?case
    unfolding m decode_members_snoc d decode_member_unfold
    using ih
    by (cases v) (auto simp: items_of_def field_values_snoc dest: names_field_unique)
qed

lemma saveError_None [simp]: "saveError e err \<noteq> None"
  by (cases err) simp_all

lemma decode_error:
  "(snd (decode_members ms (tmp_zero, None)) = None) =
     (list_all fits_string (field_values ''order_uid'' ms) \<and>
      list_all fits_slice (field_values ''items'' ms))"
proof (induction ms rule: rev_induct)
  case Nil
  then show ?case by (simp add: field_values_def)
next
  case (snoc m ms)
  obtain k v where m: "m = (k, v)" by (cases m)
  obtain t err where d: "decode_members ms (tmp_zero, None) = (t, err)"
    by (cases "decode_members ms (tmp_zero, None)")
  with snoc have ih: "(err = None) =
     (list_all fits_string (field_values ''order_uid'' ms) \<and>
      list_all fits_slice (field_values ''items'' ms))" by simp
  show ?case
    unfolding m decode_members_snoc d decode_member_unfold
    using ih
    by (cases v) (auto simp: field_values_snoc dest: names_field_unique)
qed

lemma decode_member_error_kind:
  assumes "e0 = None \<or> (\<exists>k f. e0 = Some (UnmarshalTypeError k f))"
  shows "snd (decode_member m (t0, e0)) = None \<or>
         (\<exists>k f. snd (decode_member m (t0, e0)) = Some (UnmarshalTypeError k f))"
proof -
  obtain k v where m: "m = (k, v)" by (cases m)
  from assms show ?thesis
    unfolding m decode_member_unfold
    by (cases v; cases e0) auto
qed

lemma decode_error_kind:
  "e0 = None \<or> (\<exists>k f. e0 = Some (UnmarshalTypeError k f)) \<Longrightarrow>
   snd (decode_members ms (t0, e0)) = Some e \<Longrightarrow> \<exists>k f. e = UnmarshalTypeError k f"
proof (induction ms arbitrary: t0 e0)
  case Nil
  then show ?case by auto
next
  case (Cons m ms)
  obtain t1 e1 where d: "decode_member m (t0, e0) = (t1, e1)"
    by (cases "decode_member m (t0, e0)")
  from decode_member_error_kind[OF Cons.prems(1), of m t0] d
  have "e1 = None \<or> (\<exists>k f. e1 = Some (UnmarshalTypeError k f))" by simp
  from Cons.IH[OF this] Cons.prems(2) d show ?case by simp
qed

lemma validate_invalid:
  "parse_json bs = None \<Longrightarrow> minimalValidateOrder bs = Inl InvalidJSON"
  by (simp add: minimalValidateOrder_def)

lemma Unmarshal_tmp_error:
  "(snd (Unmarshal_tmp doc) = None) = (\<not> type_mismatch doc)"
  by (cases doc) (simp_all add: Unmarshal_tmp_def type_mismatch_def decode_error)

lemma Unmarshal_tmp_error_kind:
  "snd (Unmarshal_tmp doc) = Some e \<Longrightarrow> \<exists>k f. e = UnmarshalTypeError k f"
  by (cases doc) (auto simp: Unmarshal_tmp_def dest: decode_error_kind[rotated])

lemma Unmarshal_tmp_fields:
  "\<not> type_mismatch doc \<Longrightarrow>
   fst (Unmarshal_tmp doc) =
     \<lparr>OrderUID = uid_of (members doc), Delivery = section_of ''delivery'' (members doc),
      Payment = section_of ''payment'' (members doc), Items = items_of (members doc)\<rparr>"
proof (cases doc)
  case (JObj ms)
  have "fst (decode_members ms (tmp_zero, None)) =
     \<lparr>OrderUID = uid_of ms, Delivery = section_of ''delivery'' ms,
      Payment = section_of ''payment'' ms, Items = items_of ms\<rparr>"
    using decode_OrderUID[of ms] decode_Delivery[of ms] decode_Payment[of ms] decode_Items[of ms]
    by (cases "fst (decode_members ms (tmp_zero, None))") simp
  with JObj show ?thesis by (simp add: Unmarshal_tmp_def members_def)
next
  case JNull
  then show ?thesis
    by (simp add: Unmarshal_tmp_def members_def tmp_zero_def uid_of_def section_of_def
        items_of_def field_values_def)
qed (simp_all add: type_mismatch_def)

lemma validate_mismatch:
  assumes "parse_json bs = Some doc" and "type_mismatch doc"
  shows "\<exists>k f. minimalValidateOrder bs = Inl (UnmarshalTypeError k f)"
proof -
  from assms(2) obtain e where e: "snd (Unmarshal_tmp doc) = Some e"
    using Unmarshal_tmp_error[of doc] by auto
  from Unmarshal_tmp_error_kind[OF this] obtain k f where "e = UnmarshalTypeError k f" by auto
  with e assms(1) show ?thesis
    by (cases "Unmarshal_tmp doc") (auto simp: minimalValidateOrder_def)
qed

lemma validate_shaped:
  assumes "parse_json bs = Some doc" and "\<not> type_mismatch doc"
  shows "minimalValidateOrder bs =
           (if uid_of (members doc) = [] then Inl MissingOrderUID
            else if section_of ''delivery'' (members doc) = None \<or>
                    section_of ''payment'' (members doc) = None \<or>
                    items_of (members doc) = []
            then Inl MissingNested
            else Inr (uid_of (members doc)))"
proof -
  from assms(2) have e: "snd (Unmarshal_tmp doc) = None"
    by (simp add: Unmarshal_tmp_error)
  from Unmarshal_tmp_fields[OF assms(2)] e assms(1) show ?thesis
    by (cases "Unmarshal_tmp doc") (simp add: minimalValidateOrder_def)
qed

subsection \<open>The load of the cache\<close>





subsection \<open>Upsert\<close>

text \<open>
  Claim C1 (the cache follows the durable write). For every call of \<open>Upsert\<close>: when the
  database fails, the call returns the error, its only effect is the failed statement and
  the store, cache included, is what it was; when the database commits, the call
  returns no error, the cache entry is written after the statement, and the row of the
  identifier holds the payload. So if every cache entry had its committed row before
  the call, every cache entry has it afterwards.
\<close>

theorem Upsert_cache_follows_commit:
  assumes "Upsert res s ident p = (err, evs, s')"
  shows "(case res of
            ExecFailed msg \<Rightarrow> err = Some (DBError msg) \<and> evs = [DbExec ident p False] \<and> s' = s
          | Committed now \<Rightarrow>
              err = None \<and> evs = [DbExec ident p True, CacheSet ident p] \<and>
              cache s' = (cache s)(ident \<mapsto> p) \<and> map_option payload (db s' ident) = Some p)
         \<and> (cache_committed s \<longrightarrow> cache_committed s')"
  using assms
  by (cases res)
     (auto simp: Upsert_def insert_on_conflict_update_def cache_committed_def Let_def
           split: option.splits)

text \<open>On the empty store: a failed write leaves the cache empty, a committed one fills it.\<close>

theorem Upsert_cache_follows_commit_witness:
  "Upsert (ExecFailed ''down'') \<lparr>db = Map.empty, cache = Map.empty\<rparr> ''A1'' ''{}'' =
     (Some (DBError ''down''), [DbExec ''A1'' ''{}'' False], \<lparr>db = Map.empty, cache = Map.empty\<rparr>) \<and>
   cache_committed \<lparr>db = Map.empty, cache = Map.empty\<rparr> \<and>
   cache_committed (snd (snd (Upsert (Committed 7) \<lparr>db = Map.empty, cache = Map.empty\<rparr> ''A1'' ''{}''))) \<and>
   cache (snd (snd (Upsert (Committed 7) \<lparr>db = Map.empty, cache = Map.empty\<rparr> ''A1'' ''{}''))) ''A1''
     = Some ''{}''"
proof -
  let ?s0 = "\<lparr>db = Map.empty, cache = Map.empty\<rparr>"
  let ?r = "Upsert (Committed 7) ?s0 ''A1'' ''{}''"
  have f: "Upsert (ExecFailed ''down'') ?s0 ''A1'' ''{}'' =
      (Some (DBError ''down''), [DbExec ''A1'' ''{}'' False], ?s0)"
    by (simp add: Upsert_def)
  have c: "?r = (fst ?r, fst (snd ?r), snd (snd ?r))" by simp
  have i: "cache_committed ?s0" by (simp add: cache_committed_def)
  from Upsert_cache_follows_commit[OF f] Upsert_cache_follows_commit[OF c] i f
  show ?thesis by simp
qed

text \<open>
  Claim C4 (idempotent upsert). Two calls of \<open>Upsert\<close> in succession with the same
  identifier and payload. If the first returned no error, the second leaves the store
  exactly as it was after the first, the table with its rows and their times of creation
  and the cache, whatever the database answers to the second statement. If the first
  returned an error, it changed nothing, and the second call is the one application.
\<close>

theorem Upsert_idempotent:
  assumes "Upsert res1 s ident p = (err1, evs1, s1)"
    and "Upsert res2 s1 ident p = (err2, evs2, s2)"
  shows "(err1 = None \<longrightarrow> s2 = s1) \<and>
         (err1 \<noteq> None \<longrightarrow> s1 = s \<and> Upsert res2 s ident p = (err2, evs2, s2))"
  using assms
  by (cases res1; cases res2)
     (auto simp: Upsert_def insert_on_conflict_update_def Let_def fun_upd_idem_iff
           split: option.splits)

text \<open>The order of the scenarios written at time 7 and again at time 9: one row, created at 7.\<close>

theorem Upsert_idempotent_witness:
  "snd (snd (Upsert (Committed 9)
              (snd (snd (Upsert (Committed 7) \<lparr>db = Map.empty, cache = Map.empty\<rparr>
                           ''A1'' scenario_valid)))
              ''A1'' scenario_valid))
     = \<lparr>db = [''A1'' \<mapsto> \<lparr>payload = scenario_valid, created_at = 7\<rparr>],
        cache = [''A1'' \<mapsto> scenario_valid]\<rparr>"
proof -
  let ?s0 = "\<lparr>db = Map.empty, cache = Map.empty\<rparr>"
  let ?s1 = "\<lparr>db = [''A1'' \<mapsto> \<lparr>payload = scenario_valid, created_at = 7\<rparr>],
              cache = [''A1'' \<mapsto> scenario_valid]\<rparr>"
  let ?r = "Upsert (Committed 9) ?s1 ''A1'' scenario_valid"
  have 1: "Upsert (Committed 7) ?s0 ''A1'' scenario_valid =
      (None, [DbExec ''A1'' scenario_valid True, CacheSet ''A1'' scenario_valid], ?s1)"
    by (simp add: Upsert_def insert_on_conflict_update_def)
  have 2: "?r = (fst ?r, fst (snd ?r), snd (snd ?r))" by simp
  from Upsert_idempotent[OF 1 2] 1 show ?thesis by simp
qed

text \<open>
  Claim C5 (the later write replaces the earlier). When the database commits both
  statements, \<open>Upsert\<close> of an identifier with a payload and then with another returns no
  error either time, and afterwards the row of the identifier in the table and its
  entry in the cache both hold the second payload.
\<close>

theorem Upsert_last_wins:
  assumes "Upsert (Committed t1) s ident p1 = (e1, evs1, s1)"
    and "Upsert (Committed t2) s1 ident p2 = (e2, evs2, s2)"
  shows "e1 = None \<and> e2 = None \<and> map_option payload (db s2 ident) = Some p2 \<and>
         cache s2 ident = Some p2 \<and> Get s2 ident = (p2, True)"
  using assms
  by (auto simp: Upsert_def insert_on_conflict_update_def Let_def Get_def
           split: option.splits)

text \<open>Two payloads for one identifier: the second is the one read back.\<close>

theorem Upsert_last_wins_witness:
  "Get (snd (snd (Upsert (Committed 9)
              (snd (snd (Upsert (Committed 7) \<lparr>db = Map.empty, cache = Map.empty\<rparr> ''A1'' ''[1]'')))
              ''A1'' ''[2]''))) ''A1''
     = (''[2]'', True)"
proof -
  let ?s0 = "\<lparr>db = Map.empty, cache = Map.empty\<rparr>"
  let ?r1 = "Upsert (Committed 7) ?s0 ''A1'' ''[1]''"
  let ?r2 = "Upsert (Committed 9) (snd (snd ?r1)) ''A1'' ''[2]''"
  have 1: "?r1 = (fst ?r1, fst (snd ?r1), snd (snd ?r1))" by simp
  have 2: "?r2 = (fst ?r2, fst (snd ?r2), snd (snd ?r2))" by simp
  from Upsert_last_wins[OF 1 2] show ?thesis by simp
qed

subsection \<open>The read handlers\<close>

lemma TrimPrefix_append: "TrimPrefix (pre @ x) pre = x"
  by (simp add: TrimPrefix_def)

lemma not_self_append: "pre \<noteq> [] \<Longrightarrow> x \<noteq> pre @ x"
proof
  assume "pre \<noteq> []" and "x = pre @ x"
  then have "length x = length pre + length x" by (metis length_append)
  with \<open>pre \<noteq> []\<close> show False by simp
qed

text \<open>
  Claim C8 (the JSON endpoint). On the path \<open>/api/orders/\<close> followed by an identifier,
  \<open>apiHandler\<close> replies with status 400 when the identifier is empty; otherwise with
  status 200 and the bytes of the cache entry as the body, of type \<open>application/json\<close>,
  when the cache has the identifier; otherwise with status 404. The three replies are
  written out in full, status, header and body.
\<close>

theorem apiHandler_reply:
  "status (apiHandler s (''/api/orders/'' @ ident)) =
     (if ident = [] then 400 else if cache s ident = None then 404 else 200) \<and>
   apiHandler s (''/api/orders/'' @ ident) =
     (if ident = [] then
        \<lparr>status = 400,
         header = [(''Content-Type'', ''text/plain; charset=utf-8''),
                   (''X-Content-Type-Options'', ''nosniff'')],
         body = ''missing id'' @ [CHR 0x0A]\<rparr>
      else case cache s ident of
             Some p \<Rightarrow>
               \<lparr>status = 200, header = [(''Content-Type'', ''application/json; charset=utf-8'')],
                body = p\<rparr>
           | None \<Rightarrow>
               \<lparr>status = 404,
                header = [(''Content-Type'', ''text/plain; charset=utf-8''),
                          (''X-Content-Type-Options'', ''nosniff'')],
                body = ''not found'' @ [CHR 0x0A]\<rparr>)"
proof -
  have t: "TrimPrefix (''/api/orders/'' @ ident) ''/api/orders/'' = ident"
    by (rule TrimPrefix_append)
  have n: "ident \<noteq> ''/api/orders/'' @ ident"
    by (rule not_self_append) simp
  show ?thesis
    unfolding apiHandler_def t Let_def using n
    by (simp add: Get_def http_Error_def StatusOK_def StatusBadRequest_def StatusNotFound_def
          split: option.splits)
qed

text \<open>
  Claim C9, as the specification states it, fails for the empty identifier: the reply
  is 200, but the page shows the search form alone, neither an order nor the line that
  the order was not found.
\<close>

theorem pageHandler_empty_id:
  "pageHandler (Order_zero, None) \<lparr>db = Map.empty, cache = Map.empty\<rparr> [(''id'', [])] =
     \<lparr>status = 200, header = [(''Content-Type'', ''text/html; charset=utf-8'')],
      body = \<lparr>search_value = [], block = NoBlock\<rparr>\<rparr>"
  by (simp add: pageHandler_def Let_def Get_def pageTpl_def StatusOK_def Query_Get_def)

text \<open>
  Claim C9, amended (the HTML endpoint). For every query, \<open>pageHandler\<close> replies 200,
  never 404. The page shows the order and its raw payload when the identifier is not
  empty and the cache has it, the line that the order was not found when the identifier
  is not empty and the cache has no entry for it, and the search form alone when the
  identifier is empty.
\<close>

theorem pageHandler_reply:
  "status (pageHandler res s q) = 200 \<and>
   status (pageHandler res s q) \<noteq> 404 \<and>
   body (pageHandler res s q) =
     \<lparr>search_value = Query_Get q ''id'',
      block = (if Query_Get q ''id'' = [] then NoBlock
               else case cache s (Query_Get q ''id'') of
                      Some p \<Rightarrow> OrderBlock (fst res) p
                    | None \<Rightarrow> NotFoundBlock (Query_Get q ''id''))\<rparr>"
  by (simp add: pageHandler_def Let_def Get_def pageTpl_def StatusOK_def split: option.splits)

text \<open>
  Claim C10, as the specification states it, fails for the empty identifier. A row
  with the empty key, which the table admits and \<open>LoadCache\<close> loads like any other, gives
  a cache entry for the empty identifier; its bytes are a JSON array, which does not
  decode into the struct. The handler does not look the empty identifier up: the reply
  is 200 with the search form alone, the entry is not shown as found and its raw bytes
  are not on the page.
\<close>

theorem pageHandler_empty_key:
  "cache (snd (LoadCache (Rows [Inr ([], ''[1]'')] None)
                 \<lparr>db = [[] \<mapsto> \<lparr>payload = ''[1]'', created_at = 1\<rparr>], cache = Map.empty\<rparr>)) []
     = Some ''[1]'' \<and>
   pageHandler (Order_zero, Some (UnmarshalTypeError ''array'' []))
       (snd (LoadCache (Rows [Inr ([], ''[1]'')] None)
               \<lparr>db = [[] \<mapsto> \<lparr>payload = ''[1]'', created_at = 1\<rparr>], cache = Map.empty\<rparr>))
       [(''id'', [])] =
     \<lparr>status = 200, header = [(''Content-Type'', ''text/html; charset=utf-8'')],
      body = \<lparr>search_value = [], block = NoBlock\<rparr>\<rparr>"
  by (simp add: LoadCache_def pageHandler_def Let_def Get_def pageTpl_def StatusOK_def
        Query_Get_def)

text \<open>
  Claim C10, amended (a cache entry that does not decode). For an identifier that is
  not empty and has a cache entry, when \<open>json.Unmarshal\<close> returns an error for the
  entry's bytes, \<open>pageHandler\<close> still replies 200 and shows the entry as found, with the
  raw bytes and the struct as the decoder left it: the reply is the one it gives when
  the decoder returns no error.
\<close>

theorem pageHandler_discards_error:
  assumes "ident \<noteq> []" and "Query_Get q ''id'' = ident" and "cache s ident = Some p"
  shows "pageHandler (ord, Some e) s q =
           \<lparr>status = 200, header = [(''Content-Type'', ''text/html; charset=utf-8'')],
            body = \<lparr>search_value = ident, block = OrderBlock ord p\<rparr>\<rparr>
         \<and> pageHandler (ord, Some e) s q = pageHandler (ord, None) s q"
  using assms
  by (simp add: pageHandler_def Let_def Get_def pageTpl_def StatusOK_def)

text \<open>
  A row whose payload is a JSON array, loaded into the cache at startup: the decoder
  rejects an array for the struct and leaves the struct as it was.
\<close>

theorem pageHandler_discards_error_witness:
  "pageHandler (Order_zero, Some (UnmarshalTypeError ''array'' []))
       (snd (LoadCache (Rows [Inr (''bad'', ''[1]'')] None)
               \<lparr>db = [''bad'' \<mapsto> \<lparr>payload = ''[1]'', created_at = 1\<rparr>], cache = Map.empty\<rparr>))
       [(''id'', ''bad'')] =
     \<lparr>status = 200, header = [(''Content-Type'', ''text/html; charset=utf-8'')],
      body = \<lparr>search_value = ''bad'', block = OrderBlock Order_zero ''[1]''\<rparr>\<rparr>"
proof -
  let ?s = "snd (LoadCache (Rows [Inr (''bad'', ''[1]'')] None)
               \<lparr>db = [''bad'' \<mapsto> \<lparr>payload = ''[1]'', created_at = 1\<rparr>], cache = Map.empty\<rparr>)"
  have 1: "''bad'' \<noteq> []" by simp
  have 2: "Query_Get [(''id'', ''bad'')] ''id'' = ''bad''" by (simp add: Query_Get_def)
  have 3: "cache ?s ''bad'' = Some ''[1]''" by (simp add: LoadCache_def)
  from pageHandler_discards_error[OF 1 2 3, of Order_zero "UnmarshalTypeError ''array'' []"]
  show ?thesis by simp
qed

subsection \<open>The handler of a message\<close>

text \<open>
  Claim C3 (when a message is acknowledged). A message whose payload fails validation
  is logged and acknowledged, and the store is untouched. A message that validates
  while the database fails is not acknowledged: the only effects are the failed
  statement and a line of the log, and the store is untouched. A message that validates
  while the database commits is acknowledged once, after the statement and after the write
  to the cache; the row and the cache entry then hold its payload.
\<close>

theorem handleMsg_ack_policy:
  assumes "handleMsg res s m = (evs, s')"
  shows "(case minimalValidateOrder (Data m) of
            Inl vErr \<Rightarrow> evs = [Log (DropInvalid (Sequence m) vErr), Ack (Sequence m)] \<and> s' = s
          | Inr ident \<Rightarrow>
              (case res of
                 ExecFailed msg \<Rightarrow>
                   evs = [DbExec ident (Data m) False,
                          Log (UpsertFailed (Sequence m) ident (DBError msg))] \<and>
                   s' = s \<and> (\<forall>n. Ack n \<notin> set evs)
               | Committed now \<Rightarrow>
                   evs = [DbExec ident (Data m) True, CacheSet ident (Data m),
                          Ack (Sequence m), Log (StoredOrder ident (Sequence m))] \<and>
                   cache s' ident = Some (Data m) \<and>
                   map_option payload (db s' ident) = Some (Data m)))"
  using assms
  by (cases res)
     (auto simp: handleMsg_def Upsert_def insert_on_conflict_update_def Let_def
           split: sum.splits option.splits)


text \<open>
  The valid order of the scenarios with the database down and with the database up, and
  a payload that is no JSON.
\<close>

theorem handleMsg_ack_policy_witness:
  "handleMsg (ExecFailed ''down'') \<lparr>db = Map.empty, cache = Map.empty\<rparr>
       \<lparr>Sequence = 42, Data = scenario_valid\<rparr> =
     ([DbExec ''A1'' scenario_valid False, Log (UpsertFailed 42 ''A1'' (DBError ''down''))],
      \<lparr>db = Map.empty, cache = Map.empty\<rparr>) \<and>
   fst (handleMsg (Committed 7) \<lparr>db = Map.empty, cache = Map.empty\<rparr>
       \<lparr>Sequence = 42, Data = scenario_valid\<rparr>) =
     [DbExec ''A1'' scenario_valid True, CacheSet ''A1'' scenario_valid, Ack 42,
      Log (StoredOrder ''A1'' 42)] \<and>
   handleMsg (Committed 7) \<lparr>db = Map.empty, cache = Map.empty\<rparr>
       \<lparr>Sequence = 43, Data = ''not json''\<rparr> =
     ([Log (DropInvalid 43 InvalidJSON), Ack 43], \<lparr>db = Map.empty, cache = Map.empty\<rparr>)"
proof -
  let ?s0 = "\<lparr>db = Map.empty, cache = Map.empty\<rparr>"
  let ?m = "\<lparr>Sequence = 42, Data = scenario_valid\<rparr>"
  let ?n = "\<lparr>Sequence = 43, Data = ''not json''\<rparr>"
  have v: "minimalValidateOrder scenario_valid = Inr ''A1''" by code_simp
  have w: "minimalValidateOrder ''not json'' = Inl InvalidJSON" by code_simp
  have 1: "handleMsg (ExecFailed ''down'') ?s0 ?m =
      (fst (handleMsg (ExecFailed ''down'') ?s0 ?m), snd (handleMsg (ExecFailed ''down'') ?s0 ?m))"
    by simp
  have 2: "handleMsg (Committed 7) ?s0 ?m =
      (fst (handleMsg (Committed 7) ?s0 ?m), snd (handleMsg (Committed 7) ?s0 ?m))"
    by simp
  have 3: "handleMsg (Committed 7) ?s0 ?n =
      (fst (handleMsg (Committed 7) ?s0 ?n), snd (handleMsg (Committed 7) ?s0 ?n))"
    by simp
  from handleMsg_ack_policy[OF 1] handleMsg_ack_policy[OF 2] handleMsg_ack_policy[OF 3] v w
  show ?thesis by (simp add: prod_eq_iff)
qed

subsection \<open>What the pipeline keeps true\<close>

text \<open>
  Three facts about every message: an identifier that validation returns is not empty;
  the handler keeps every cache entry backed by its committed row; the handler never
  makes a cache entry for the empty identifier.
\<close>

lemma validated_ident_nonempty:
  "minimalValidateOrder bs = Inr ident \<Longrightarrow> ident \<noteq> []"
  by (auto simp: minimalValidateOrder_def split: option.splits prod.splits if_splits)

lemma handleMsg_keeps_committed:
  assumes "handleMsg res s m = (evs, s')" and "cache_committed s"
  shows "cache_committed s'"
  using assms
  by (cases res)
     (auto simp: handleMsg_def Upsert_def insert_on_conflict_update_def cache_committed_def
           Let_def split: sum.splits option.splits)

lemma handleMsg_no_empty_key:
  assumes "handleMsg res s m = (evs, s')" and "cache s [] = None"
  shows "cache s' [] = None"
proof (cases "minimalValidateOrder (Data m)")
  case (Inl e)
  with assms show ?thesis by (simp add: handleMsg_def)
next
  case (Inr ident)
  then have "ident \<noteq> []" by (rule validated_ident_nonempty)
  with assms Inr show ?thesis
    by (cases res) (auto simp: handleMsg_def Upsert_def Let_def)
qed

subsection \<open>Validation\<close>

lemma at_most_one: "length xs \<le> 1 \<Longrightarrow> xs = [] \<or> (\<exists>v. xs = [v])"
  by (cases xs) auto

lemma fields_onceD:
  "fields_once ms \<Longrightarrow> f \<in> set tmp_fields \<Longrightarrow>
     field_values f ms = [] \<or> (\<exists>v. field_values f ms = [v])"
  by (rule at_most_one) (simp add: fields_once_def list_all_iff)

text \<open>
  Claim C2, as the specification states it, fails on a payload that names a field more
  than once. Here the identifier, the delivery and the payment are given, and the items
  are given under three names that differ in the case of their letters only, all of
  which the decoder reads as the field \<open>items\<close>: a list of one item, a string, the list
  again. The decoder reports the string as a type error, and validation fails although
  the payload carries an identifier and every section, the items as a list that is not
  empty.
\<close>

theorem validate_repeated_items:
  "parse_json scenario_items_thrice \<noteq> None \<and>
   carries_uid (members (the (parse_json scenario_items_thrice))) ''A1'' \<and>
   section_present ''delivery'' (members (the (parse_json scenario_items_thrice))) \<and>
   section_present ''payment'' (members (the (parse_json scenario_items_thrice))) \<and>
   items_present (members (the (parse_json scenario_items_thrice))) \<and>
   minimalValidateOrder scenario_items_thrice = Inl (UnmarshalTypeError ''string'' ''items'')"
proof -
  let ?M = "[(''order_uid'', JStr ''A1''), (''delivery'', JObj []), (''payment'', JObj []),
     (''items'', JArr [JObj [(''x'', JNum ''1'')]]), (''Items'', JStr ''z''),
     (''ITEMS'', JArr [JObj [(''x'', JNum ''1'')]])]"
  have p: "parse_json scenario_items_thrice = Some (JObj ?M)" by code_simp
  have u: "carries_uid ?M ''A1''" by code_simp
  have d: "section_present ''delivery'' ?M" by code_simp
  have y: "section_present ''payment'' ?M" by code_simp
  have i: "items_present ?M" by code_simp
  have v: "minimalValidateOrder scenario_items_thrice = Inl (UnmarshalTypeError ''string'' ''items'')"
    by code_simp
  from p u d y i v show ?thesis by (simp add: members_def)
qed

text \<open>
  Claim C2, amended (what validation requires). For every payload that is well-formed
  JSON, whose value is an object in which none of the four fields is named by more than
  one member (a name counts as the decoder reads it, exactly or with the case of its
  letters ignored), and that carries an identifier, a string that is not empty:
  \<open>minimalValidateOrder\<close> succeeds if and only if the delivery is present and not
  \<open>null\<close>, the payment is present and not \<open>null\<close>, and the items are present as a list that
  is not empty; when it succeeds it returns the identifier. An empty object for the
  delivery or the payment is enough, an empty list for the items is not.
\<close>

theorem validate_iff_sections:
  assumes p: "parse_json bs = Some (JObj ms)"
    and once: "fields_once ms"
    and uid: "carries_uid ms uid"
  shows "(minimalValidateOrder bs = Inr uid) =
           (section_present ''delivery'' ms \<and> section_present ''payment'' ms \<and> items_present ms)
         \<and> (\<forall>r. minimalValidateOrder bs = Inr r \<longrightarrow> r = uid)"
proof -
  from fields_onceD[OF once, of "''order_uid''"] uid
  have u: "field_values ''order_uid'' ms = [JStr uid]" and ne: "uid \<noteq> []"
    by (auto simp: carries_uid_def tmp_fields_def)
  then have uo: "uid_of ms = uid" by (simp add: uid_of_def)
  have d: "(section_of ''delivery'' ms \<noteq> None) = section_present ''delivery'' ms"
    using fields_onceD[OF once, of "''delivery''"]
    by (auto simp: section_of_def section_present_def tmp_fields_def split: json.splits)
  have pm: "(section_of ''payment'' ms \<noteq> None) = section_present ''payment'' ms"
    using fields_onceD[OF once, of "''payment''"]
    by (auto simp: section_of_def section_present_def tmp_fields_def split: json.splits)
  from fields_onceD[OF once, of "''items''"]
  consider "field_values ''items'' ms = []" | v where "field_values ''items'' ms = [v]"
    by (auto simp: tmp_fields_def)
  then show ?thesis
  proof cases
    case 1
    then have "\<not> type_mismatch (JObj ms)" by (simp add: type_mismatch_def u)
    from validate_shaped[OF p this] 1 ne uo show ?thesis
      by (auto simp: members_def items_of_def items_present_def)
  next
    case (2 v)
    show ?thesis
    proof (cases "fits_slice v")
      case True
      with 2 have "\<not> type_mismatch (JObj ms)" by (simp add: type_mismatch_def u)
      from validate_shaped[OF p this] 2 True ne uo d pm show ?thesis
        by (cases v rule: fits_slice.cases; cases "items_of ms")
           (auto simp: members_def items_of_def items_present_def neq_Nil_conv)
    next
      case False
      with 2 have "type_mismatch (JObj ms)" by (simp add: type_mismatch_def)
      from validate_mismatch[OF p this] 2 False show ?thesis
        by (cases v rule: nonempty_list.cases) (auto simp: items_present_def)
    qed
  qed
qed

text \<open>
  The two payloads of the scenarios: with one item the identifier is returned, with the
  empty list of items validation fails for the missing sections.
\<close>

theorem validate_iff_sections_witness:
  "minimalValidateOrder scenario_valid = Inr ''A1'' \<and>
   minimalValidateOrder scenario_empty_items \<noteq> Inr ''A1'' \<and>
   minimalValidateOrder scenario_empty_items = Inl MissingNested"
proof -
  let ?M = "[(''order_uid'', JStr ''A1''), (''delivery'', JObj []), (''payment'', JObj []),
     (''items'', JArr [JObj [(''x'', JNum ''1'')]])]"
  let ?N = "[(''order_uid'', JStr ''A1''), (''delivery'', JObj []), (''payment'', JObj []),
     (''items'', JArr [])]"
  have p: "parse_json scenario_valid = Some (JObj ?M)" by code_simp
  have o: "fields_once ?M" by code_simp
  have u: "carries_uid ?M ''A1''" by code_simp
  have d: "section_present ''delivery'' ?M" by code_simp
  have y: "section_present ''payment'' ?M" by code_simp
  have i: "items_present ?M" by code_simp
  have p': "parse_json scenario_empty_items = Some (JObj ?N)" by code_simp
  have o': "fields_once ?N" by code_simp
  have u': "carries_uid ?N ''A1''" by code_simp
  have i': "\<not> items_present ?N" by code_simp
  have v': "minimalValidateOrder scenario_empty_items = Inl MissingNested" by code_simp
  have a: "minimalValidateOrder scenario_valid = Inr ''A1''"
    using validate_iff_sections[OF p o u, THEN conjunct1] d y i by blast
  have b: "minimalValidateOrder scenario_empty_items \<noteq> Inr ''A1''"
    using validate_iff_sections[OF p' o' u', THEN conjunct1] i' by blast
  from a b v' show ?thesis by (intro conjI)
qed

text \<open>
  Claim C7, as the specification states it, fails on a payload that is well-formed JSON
  of the wrong shape. Here \<open>order_uid\<close> is a number: validation fails with the type
  error of the decoder, which is none of the three errors that the function makes
  itself.
\<close>

theorem validate_type_error:
  "parse_json scenario_uid_number \<noteq> None \<and>
   minimalValidateOrder scenario_uid_number = Inl (UnmarshalTypeError ''number'' ''order_uid'') \<and>
   UnmarshalTypeError ''number'' ''order_uid'' \<notin> {InvalidJSON, MissingOrderUID, MissingNested}"
proof -
  have p: "parse_json scenario_uid_number =
      Some (JObj [(''order_uid'', JNum ''5''), (''delivery'', JObj []), (''payment'', JObj []),
        (''items'', JArr [JObj [(''x'', JNum ''1'')]])])"
    by code_simp
  have v: "minimalValidateOrder scenario_uid_number = Inl (UnmarshalTypeError ''number'' ''order_uid'')"
    by code_simp
  from p v show ?thesis by simp
qed

text \<open>
  Claim C7, amended (the classes of validation failure). Every failure of
  \<open>minimalValidateOrder\<close> is of one of four classes and no other. The payload is not
  well-formed JSON: the error is \<open>invalid JSON\<close>. The payload is well-formed JSON of the
  wrong shape (its value is neither an object nor \<open>null\<close>, or a member gives
  \<open>order_uid\<close> a value that is neither a string nor \<open>null\<close>, or gives \<open>items\<close> a value
  that is neither an array nor \<open>null\<close>): the error is the type error of the decoder.
  Otherwise, the identifier is absent or empty: the error is \<open>missing order_uid\<close>.
  Otherwise the error is \<open>missing required nested fields\<close>, and the delivery or the
  payment is absent or \<open>null\<close>, or the items are absent, \<open>null\<close> or empty.
\<close>

theorem validation_failure_classes:
  assumes "minimalValidateOrder bs = Inl e"
  shows "(case parse_json bs of
            None \<Rightarrow> e = InvalidJSON
          | Some doc \<Rightarrow>
              if type_mismatch doc then (\<exists>k f. e = UnmarshalTypeError k f)
              else if uid_of (members doc) = [] then e = MissingOrderUID
              else e = MissingNested \<and>
                   (section_of ''delivery'' (members doc) = None \<or>
                    section_of ''payment'' (members doc) = None \<or>
                    items_of (members doc) = []))"
proof (cases "parse_json bs")
  case None
  with assms show ?thesis by (simp add: validate_invalid)
next
  case (Some doc)
  show ?thesis
  proof (cases "type_mismatch doc")
    case True
    from validate_mismatch[OF Some True] assms Some True show ?thesis by auto
  next
    case False
    from validate_shaped[OF Some False] assms Some False show ?thesis
      by (auto split: if_splits)
  qed
qed

text \<open>A payload that is no JSON, and the payload whose \<open>order_uid\<close> is a number.\<close>

theorem validation_failure_classes_witness:
  "minimalValidateOrder ''not json'' = Inl InvalidJSON \<and>
   parse_json ''not json'' = None \<and>
   minimalValidateOrder scenario_uid_number = Inl (UnmarshalTypeError ''number'' ''order_uid'') \<and>
   type_mismatch (the (parse_json scenario_uid_number))"
proof -
  have v: "minimalValidateOrder ''not json'' = Inl InvalidJSON" by code_simp
  have w: "minimalValidateOrder scenario_uid_number = Inl (UnmarshalTypeError ''number'' ''order_uid'')"
    by code_simp
  have p: "parse_json scenario_uid_number \<noteq> None" by code_simp
  from validation_failure_classes[OF v] validation_failure_classes[OF w] v w p
  show ?thesis by (auto split: option.splits if_splits)
qed

end
